theory Spec2Isabelle
  imports Complex_Main "HOL-Library.List_Lexorder" "HOL-Library.Char_ord"
begin

section \<open>The storage layer of docker-explorer (docker\_explorer/lib/storage.py)\<close>

text \<open>
  A shallow embedding of \<^verbatim>\<open>storage.py\<close>: the classes \<^verbatim>\<open>ContainerInfo\<close> and
  \<^verbatim>\<open>Storage\<close>. Every exception the Python code can raise is a value \<open>Inl e\<close> of the
  result type; the one loop that may run forever (\<^verbatim>\<open>GetOrderedLayers\<close>) returns an
  \<open>option\<close>, where \<open>None\<close> stands for a call that never returns. Output on the terminal
  (\<^verbatim>\<open>print\<close>) is not part of the model.
\<close>

subsection \<open>Values, errors and the host\<close>

text \<open>What \<^verbatim>\<open>json.load\<close> returns. A JSON object is the list of the items of the decoded
  dictionary, in the order in which \<^verbatim>\<open>.items()\<close> iterates over them; \<open>JNull\<close> is
  Python's \<^verbatim>\<open>None\<close>.\<close>

datatype json =
    JNull
  | JBool bool
  | JNumber rat
  | JString string
  | JArray "json list"
  | JObject "(string \<times> json) list"

datatype error =
    IOError
  | OSError
  | ValueError
  | AttributeError
  | KeyError
  | TypeError
  | UnboundLocalError
  | SystemExit int

datatype fnode = Dir "string list" | File string

text \<open>The host the code runs on: \<open>files h p\<close> is what the path \<open>p\<close> resolves to
  (nothing, a directory with its entries, or a file with its text), and \<open>json_loads h\<close> is
  the JSON decoder of the standard library, \<open>None\<close> where it raises \<^verbatim>\<open>ValueError\<close>.\<close>

record host =
  files :: "string \<rightharpoonup> fnode"
  json_loads :: "string \<Rightarrow> json option"

definition isfile :: "host \<Rightarrow> string \<Rightarrow> bool" where
  "isfile h p = (case files h p of Some (File _) \<Rightarrow> True | _ \<Rightarrow> False)"

definition isdir :: "host \<Rightarrow> string \<Rightarrow> bool" where
  "isdir h p = (case files h p of Some (Dir _) \<Rightarrow> True | _ \<Rightarrow> False)"

definition open_read :: "host \<Rightarrow> string \<Rightarrow> error + string" where
  "open_read h p = (case files h p of Some (File s) \<Rightarrow> Inr s | _ \<Rightarrow> Inl IOError)"

definition listdir :: "host \<Rightarrow> string \<Rightarrow> error + string list" where
  "listdir h p = (case files h p of Some (Dir es) \<Rightarrow> Inr es | _ \<Rightarrow> Inl OSError)"

definition json_load :: "host \<Rightarrow> string \<Rightarrow> error + json" where
  "json_load h p =
     (case open_read h p of
        Inl e \<Rightarrow> Inl e
      | Inr s \<Rightarrow> (case json_loads h s of None \<Rightarrow> Inl ValueError | Some j \<Rightarrow> Inr j))"

text \<open>Truth value of a decoded value in a condition (\<^verbatim>\<open>if json_state:\<close>).\<close>

fun truthy :: "json \<Rightarrow> bool" where
  "truthy JNull = False"
| "truthy (JBool b) = b"
| "truthy (JNumber n) = (n \<noteq> 0)"
| "truthy (JString s) = (s \<noteq> [])"
| "truthy (JArray xs) = (xs \<noteq> [])"
| "truthy (JObject kvs) = (kvs \<noteq> [])"

text \<open>\<^verbatim>\<open>d.get(k, default)\<close>: only a dictionary has the method.\<close>

definition dict_get :: "(string \<times> json) list \<Rightarrow> string \<Rightarrow> json \<Rightarrow> json" where
  "dict_get kvs k dflt = (case map_of kvs k of Some v \<Rightarrow> v | None \<Rightarrow> dflt)"

definition py_get :: "json \<Rightarrow> string \<Rightarrow> json \<Rightarrow> error + json" where
  "py_get d k dflt = (case d of JObject kvs \<Rightarrow> Inr (dict_get kvs k dflt) | _ \<Rightarrow> Inl AttributeError)"

subsection \<open>Strings and paths (posixpath)\<close>

text \<open>\<^verbatim>\<open>s.split(c)\<close> for a one-character separator: always at least one component.\<close>

fun split_on :: "char \<Rightarrow> string \<Rightarrow> string list" where
  "split_on c [] = [[]]"
| "split_on c (x # xs) =
     (if x = c then [] # split_on c xs
      else (case split_on c xs of [] \<Rightarrow> [[x]] | w # ws \<Rightarrow> (x # w) # ws))"


definition is_space :: "char \<Rightarrow> bool" where
  "is_space c = (c \<in> {CHR '' '', CHR 0x09, CHR 0x0A, CHR 0x0B, CHR 0x0C, CHR 0x0D})"

definition strip :: "string \<Rightarrow> string" where
  "strip s = rev (dropWhile is_space (rev (dropWhile is_space s)))"

definition path_join2 :: "string \<Rightarrow> string \<Rightarrow> string" where
  "path_join2 path b =
     (if b \<noteq> [] \<and> hd b = CHR ''/'' then b
      else if path = [] \<or> last path = CHR ''/'' then path @ b
      else path @ ''/'' @ b)"

definition path_join :: "string \<Rightarrow> string list \<Rightarrow> string" where
  "path_join a ps = foldl path_join2 a ps"

fun sep_join :: "string list \<Rightarrow> string" where
  "sep_join [] = []"
| "sep_join [c] = c"
| "sep_join (c # cs) = c @ ''/'' @ sep_join cs"

fun norm_comps :: "bool \<Rightarrow> string list \<Rightarrow> string list \<Rightarrow> string list" where
  "norm_comps initial_slashes new_comps [] = new_comps"
| "norm_comps initial_slashes new_comps (c # comps) =
     (if c = [] \<or> c = ''.'' then norm_comps initial_slashes new_comps comps
      else if c \<noteq> ''..'' \<or> (\<not> initial_slashes \<and> new_comps = [])
              \<or> (new_comps \<noteq> [] \<and> last new_comps = ''..'')
        then norm_comps initial_slashes (new_comps @ [c]) comps
      else if new_comps \<noteq> [] then norm_comps initial_slashes (butlast new_comps) comps
      else norm_comps initial_slashes new_comps comps)"

definition normpath :: "string \<Rightarrow> string" where
  "normpath path =
     (if path = [] then ''.''
      else
        let initial_slashes =
              (if take 1 path = ''/''
               then (if take 2 path = ''//'' \<and> take 3 path \<noteq> ''///'' then 2 else 1)
               else (0::nat));
            comps = norm_comps (initial_slashes \<noteq> 0) [] (split_on CHR ''/'' path);
            p = replicate initial_slashes CHR ''/'' @ sep_join comps
        in if p = [] then ''.'' else p)"

text \<open>\<^verbatim>\<open>os.path.abspath\<close>; \<open>cwd\<close> is what \<^verbatim>\<open>os.getcwd()\<close> returns.\<close>

definition abspath :: "string \<Rightarrow> string \<Rightarrow> string" where
  "abspath cwd path = normpath (if take 1 path = ''/'' then path else path_join2 cwd path)"

subsection \<open>ContainerInfo\<close>

text \<open>An attribute that \<^verbatim>\<open>__init__\<close> assigns only inside an \<^verbatim>\<open>if\<close> has an
  \<open>option\<close> type: \<open>None\<close> is an object without that attribute (reading it raises
  \<^verbatim>\<open>AttributeError\<close>). \<open>mount_id\<close> is always assigned: \<open>None\<close> is Python's
  \<^verbatim>\<open>None\<close> there.\<close>

record container_info =
  container_id :: string
  config_image_name :: "json option"
  config_labels :: "json option"
  creation_timestamp :: json
  image_id :: json
  mount_points :: json
  name :: json
  running :: "json option"
  start_timestamp :: "json option"
  volumes :: json
  mount_id :: "string option"

definition ContainerInfo_init :: "host \<Rightarrow> string \<Rightarrow> string \<Rightarrow> error + container_info" where
  "ContainerInfo_init h cid container_info_json_path =
     (case json_load h container_info_json_path of
        Inl e \<Rightarrow> Inl e
      | Inr container_info_dict \<Rightarrow>
     (case container_info_dict of
        JObject d \<Rightarrow>
          (let json_config = dict_get d ''Config'' JNull;
               json_state = dict_get d ''State'' JNull
           in
           (case (if truthy json_config
                  then (case json_config of
                          JObject c \<Rightarrow> Inr (Some (dict_get c ''Image'' JNull),
                                            Some (dict_get c ''Labels'' JNull))
                        | _ \<Rightarrow> Inl AttributeError)
                  else Inr (None, None)) of
              Inl e \<Rightarrow> Inl e
            | Inr (img_name, labels) \<Rightarrow>
           (case (if truthy json_state
                  then (case json_state of
                          JObject s \<Rightarrow> Inr (Some (dict_get s ''Running'' (JBool False)),
                                            Some (dict_get s ''StartedAt'' (JBool False)))
                        | _ \<Rightarrow> Inl AttributeError)
                  else Inr (None, None)) of
              Inl e \<Rightarrow> Inl e
            | Inr (run, started) \<Rightarrow>
                Inr \<lparr> container_id = cid,
                      config_image_name = img_name,
                      config_labels = labels,
                      creation_timestamp = dict_get d ''Created'' JNull,
                      image_id = dict_get d ''Image'' JNull,
                      mount_points = dict_get d ''MountPoints'' JNull,
                      name = dict_get d ''Name'' (JString []),
                      running = run,
                      start_timestamp = started,
                      volumes = dict_get d ''Volumes'' JNull,
                      mount_id = None \<rparr>)))
      | _ \<Rightarrow> Inl AttributeError))"

subsection \<open>Storage\<close>

text \<open>\<open>STORAGE_METHOD\<close> is a class attribute that the driver subclasses of
  \<^verbatim>\<open>Storage\<close> define; they are not in this file, so the constructor takes it as an
  argument.\<close>

record storage =
  docker_version :: int
  storage_name :: "string option"
  root_directory :: string
  docker_directory :: string
  containers_directory :: string
  container_config_filename :: string
  STORAGE_METHOD :: string

text \<open>The constructor reads no file: the host is not among its arguments. Only
  \<^verbatim>\<open>os.path.abspath\<close> asks for the working directory, after the version check.\<close>

definition Storage_init :: "string \<Rightarrow> string \<Rightarrow> string \<Rightarrow> int \<Rightarrow> error + storage" where
  "Storage_init cwd storage_method docker_dir version =
     (if version \<noteq> 1 \<and> version \<noteq> 2 then Inl (SystemExit 1)
      else Inr \<lparr> docker_version = version,
                 storage_name = None,
                 root_directory = abspath cwd (path_join docker_dir [''..'']),
                 docker_directory = docker_dir,
                 containers_directory = path_join docker_dir [''containers''],
                 container_config_filename =
                   (if version = 1 then ''config.json'' else ''config.v2.json''),
                 STORAGE_METHOD = storage_method \<rparr>)"

text \<open>The list comprehension \<^verbatim>\<open>[f(x) for x in xs]\<close>: the first exception ends it.\<close>

fun collect :: "('a \<Rightarrow> error + 'b) \<Rightarrow> 'a list \<Rightarrow> error + 'b list" where
  "collect f [] = Inr []"
| "collect f (x # xs) =
     (case f x of
        Inl e \<Rightarrow> Inl e
      | Inr y \<Rightarrow> (case collect f xs of Inl e \<Rightarrow> Inl e | Inr ys \<Rightarrow> Inr (y # ys)))"

definition container_config_path :: "storage \<Rightarrow> string \<Rightarrow> string" where
  "container_config_path st cid =
     path_join (containers_directory st) [cid, container_config_filename st]"

definition mount_id_path :: "storage \<Rightarrow> string \<Rightarrow> string" where
  "mount_id_path st cid =
     path_join
       (path_join (docker_directory st) [''image'', STORAGE_METHOD st, ''layerdb'', ''mounts'', cid])
       [''mount-id'']"

text \<open>In \<^verbatim>\<open>GetContainerInfo\<close> the local variable \<^verbatim>\<open>container_info\<close> is bound only
  when the config file exists: \<open>None\<close> below is the unbound variable, and using it raises
  \<^verbatim>\<open>UnboundLocalError\<close>. For generation 2 the mount-id file is opened first, then read,
  then the variable is used.\<close>

definition GetContainerInfo :: "host \<Rightarrow> storage \<Rightarrow> string \<Rightarrow> error + container_info" where
  "GetContainerInfo h st cid =
     (let container_info_json_path = container_config_path st cid in
      (case (if isfile h container_info_json_path
             then (case ContainerInfo_init h cid container_info_json_path of
                     Inl e \<Rightarrow> Inl e
                   | Inr ci \<Rightarrow> Inr (Some ci))
             else Inr None) of
         Inl e \<Rightarrow> Inl e
       | Inr local_info \<Rightarrow>
           if docker_version st = 2 then
             (case open_read h (mount_id_path st cid) of
                Inl e \<Rightarrow> Inl e
              | Inr text \<Rightarrow>
                  (case local_info of
                     None \<Rightarrow> Inl UnboundLocalError
                   | Some ci \<Rightarrow> Inr (ci\<lparr>mount_id := Some text\<rparr>)))
           else
             (case local_info of
                None \<Rightarrow> Inl UnboundLocalError
              | Some ci \<Rightarrow> Inr ci)))"

text \<open>With \<^verbatim>\<open>print_function\<close> imported, \<^verbatim>\<open>print(...)\<close> returns \<^verbatim>\<open>None\<close>, so
  \<^verbatim>\<open>print(...).format(...)\<close> in the branch of the empty listing raises
  \<^verbatim>\<open>AttributeError\<close> once the text is printed.\<close>

definition GetAllContainersInfo :: "host \<Rightarrow> storage \<Rightarrow> error + container_info list" where
  "GetAllContainersInfo h st =
     (case listdir h (containers_directory st) of
        Inl e \<Rightarrow> Inl e
      | Inr container_ids_list \<Rightarrow>
          if container_ids_list = [] then Inl AttributeError
          else collect (GetContainerInfo h st) container_ids_list)"

definition attr_value :: "json option \<Rightarrow> json" where
  "attr_value a = (case a of Some v \<Rightarrow> v | None \<Rightarrow> JNull)"

text \<open>\<^verbatim>\<open>sorted(..., key=lambda x: x.start_timestamp)\<close> is a stable sort by the
  interpreter's order on the decoded values. That order is not this repository's: \<open>rank\<close>
  embeds it into a linear order. Reading the key of an object without the attribute raises
  \<^verbatim>\<open>AttributeError\<close>, and so does reading \<^verbatim>\<open>x.running\<close> in the filter.\<close>

definition GetContainersList ::
  "(json \<Rightarrow> 'k::linorder) \<Rightarrow> host \<Rightarrow> storage \<Rightarrow> bool \<Rightarrow> error + container_info list" where
  "GetContainersList rank h st only_running =
     (case GetAllContainersInfo h st of
        Inl e \<Rightarrow> Inl e
      | Inr infos \<Rightarrow>
          if \<not> list_all (\<lambda>x. start_timestamp x \<noteq> None) infos then Inl AttributeError
          else
            let containers_info_list =
                  sort_key (\<lambda>x. rank (attr_value (start_timestamp x))) infos
            in if only_running then
                 (if \<not> list_all (\<lambda>x. running x \<noteq> None) containers_info_list
                  then Inl AttributeError
                  else Inr (filter (\<lambda>x. truthy (attr_value (running x))) containers_info_list))
               else Inr containers_info_list)"

subsection \<open>The layer chain\<close>

definition parent_layer_path :: "storage \<Rightarrow> string \<Rightarrow> string \<Rightarrow> string" where
  "parent_layer_path st hash_method layer_id =
     path_join (docker_directory st)
       [''image'', STORAGE_METHOD st, ''imagedb'', ''metadata'', hash_method, layer_id, ''parent'']"

text \<open>The \<^verbatim>\<open>while current_layer is not None\<close> loop of \<^verbatim>\<open>GetOrderedLayers\<close>. It has no
  bound and keeps no set of visited layers, so it is a partial function: \<open>None\<close> is a loop
  that never ends. \<^verbatim>\<open>hash_method, layer_id = current_layer.split(':')\<close> raises
  \<^verbatim>\<open>ValueError\<close> unless the split has exactly two parts. A layer that is neither a
  string nor \<^verbatim>\<open>None\<close> has no \<^verbatim>\<open>split\<close> and cannot be joined to a path. With a version
  other than 1 and 2 no branch changes \<^verbatim>\<open>current_layer\<close>, and the loop never ends.\<close>

partial_function (option) layers_loop ::
  "host \<Rightarrow> storage \<Rightarrow> json \<Rightarrow> string list \<Rightarrow> (error + string list) option" where
  "layers_loop h st current_layer layer_list =
     (case current_layer of
        JNull \<Rightarrow> Some (Inr layer_list)
      | JString cur \<Rightarrow>
          (if docker_version st = 1 then
             (case json_load h (path_join (docker_directory st) [''graph'', cur, ''json'']) of
                Inl e \<Rightarrow> Some (Inl e)
              | Inr layer_info \<Rightarrow>
                  (case py_get layer_info ''parent'' JNull of
                     Inl e \<Rightarrow> Some (Inl e)
                   | Inr parent \<Rightarrow> layers_loop h st parent (layer_list @ [cur])))
           else if docker_version st = 2 then
             (case split_on CHR '':'' cur of
                [hash_method, layer_id] \<Rightarrow>
                  (if \<not> isfile h (parent_layer_path st hash_method layer_id)
                   then Some (Inr (layer_list @ [cur]))
                   else
                     (case open_read h (parent_layer_path st hash_method layer_id) of
                        Inl e \<Rightarrow> Some (Inl e)
                      | Inr text \<Rightarrow> layers_loop h st (JString (strip text)) (layer_list @ [cur])))
              | _ \<Rightarrow> Some (Inl ValueError))
           else layers_loop h st current_layer (layer_list @ [cur]))
      | _ \<Rightarrow>
          (if docker_version st = 1 \<or> docker_version st = 2 then Some (Inl AttributeError)
           else None))"

declare layers_loop.simps [code]

definition GetOrderedLayers :: "host \<Rightarrow> storage \<Rightarrow> string \<Rightarrow> (error + string list) option" where
  "GetOrderedLayers h st cid =
     (if \<not> isdir h (path_join (docker_directory st) [''graph'', cid]) then
        (if \<not> isfile h (container_config_path st cid) then Some (Inr [])
         else
           (case json_load h (container_config_path st cid) of
              Inl e \<Rightarrow> Some (Inl e)
            | Inr json_dict \<Rightarrow>
                (case py_get json_dict ''Image'' JNull of
                   Inl e \<Rightarrow> Some (Inl e)
                 | Inr image_ref \<Rightarrow> layers_loop h st image_ref [])))
      else layers_loop h st (JString cid) [])"

text \<open>\<^verbatim>\<open>GetLayerInfo\<close>: \<open>Inr None\<close> is the \<^verbatim>\<open>None\<close> it returns when the descriptor
  file does not exist. With a version other than 1 and 2 the path variable is unbound.\<close>

definition GetLayerInfo :: "host \<Rightarrow> storage \<Rightarrow> string \<Rightarrow> error + json option" where
  "GetLayerInfo h st cid =
     (case (if docker_version st = 1
            then Inr (path_join (docker_directory st) [''graph'', cid, ''json''])
            else if docker_version st = 2 then
              (case split_on CHR '':'' cid of
                 [hash_method, layer_id] \<Rightarrow>
                   Inr (path_join (docker_directory st)
                          [''image'', STORAGE_METHOD st, ''imagedb'', ''content'',
                           hash_method, layer_id])
               | _ \<Rightarrow> Inl ValueError)
            else Inl UnboundLocalError) of
        Inl e \<Rightarrow> Inl e
      | Inr layer_info_path \<Rightarrow>
          if isfile h layer_info_path
          then (case json_load h layer_info_path of Inl e \<Rightarrow> Inl e | Inr j \<Rightarrow> Inr (Some j))
          else Inr None)"

subsection \<open>Bind mounts of the declared volumes\<close>







subsection \<open>Notions used in the statements\<close>





text \<open>An order on start timestamps for the examples: strings in lexicographic order.\<close>

definition string_rank :: "json \<Rightarrow> string" where
  "string_rank j = (case j of JString s \<Rightarrow> s | _ \<Rightarrow> [])"

subsection \<open>Example hosts\<close>

text \<open>The two storage objects that the constructor builds for \<^verbatim>\<open>/var/lib/docker\<close>.\<close>

definition storage_v1 :: storage where
  "storage_v1 =
     \<lparr> docker_version = 1, storage_name = None, root_directory = ''/var/lib'',
       docker_directory = ''/var/lib/docker'',
       containers_directory = ''/var/lib/docker/containers'',
       container_config_filename = ''config.json'', STORAGE_METHOD = ''aufs'' \<rparr>"

definition storage_v2 :: storage where
  "storage_v2 =
     \<lparr> docker_version = 2, storage_name = None, root_directory = ''/var/lib'',
       docker_directory = ''/var/lib/docker'',
       containers_directory = ''/var/lib/docker/containers'',
       container_config_filename = ''config.v2.json'', STORAGE_METHOD = ''aufs'' \<rparr>"

definition config_text :: string where
  \<open>config_text = ''{"Image": "sha256:a"}''\<close>

definition config_text_nodigest :: string where
  \<open>config_text_nodigest = ''{"Image": "sha256:"}''\<close>

definition demo_loads :: "string \<Rightarrow> json option" where
  "demo_loads =
     map_of [(config_text, JObject [(''Image'', JString ''sha256:a'')]),
             (config_text_nodigest, JObject [(''Image'', JString ''sha256:'')])]"


text \<open>Layer \<^verbatim>\<open>sha256:a\<close> has the parent \<^verbatim>\<open>sha256:b\<close>, which has no parent file.\<close>

definition chain_host :: host where
  "chain_host =
     \<lparr> files = map_of
         [(''/var/lib/docker/containers/c1/config.v2.json'', File config_text),
          (''/var/lib/docker/image/aufs/imagedb/metadata/sha256/a/parent'',
             File (''sha256:b'' @ [CHR 0x0A]))],
       json_loads = demo_loads \<rparr>"


text \<open>The image of the container is \<^verbatim>\<open>sha256:\<close>, with an empty digest.\<close>

definition nodigest_host :: host where
  "nodigest_host =
     \<lparr> files = map_of
         [(''/var/lib/docker/containers/c1/config.v2.json'', File config_text_nodigest)],
       json_loads = demo_loads \<rparr>"

text \<open>A generation-2 container with its config file and no mount-id file.\<close>

definition no_mount_id_host :: host where
  "no_mount_id_host =
     \<lparr> files = map_of
         [(''/var/lib/docker/containers'', Dir [''c1'']),
          (''/var/lib/docker/containers/c1/config.v2.json'', File config_text)],
       json_loads = demo_loads \<rparr>"

text \<open>A generation-1 container whose config has neither \<^verbatim>\<open>Config\<close> nor
  \<^verbatim>\<open>State\<close>.\<close>

definition legacy_host :: host where
  "legacy_host =
     \<lparr> files = map_of
         [(''/var/lib/docker/containers'', Dir [''c1'']),
          (''/var/lib/docker/containers/c1/config.json'', File config_text)],
       json_loads = demo_loads \<rparr>"

definition empty_catalog_host :: host where
  "empty_catalog_host =
     \<lparr> files = map_of [(''/var/lib/docker/containers'', Dir [])],
       json_loads = demo_loads \<rparr>"

text \<open>What \<^verbatim>\<open>ContainerInfo\<close> builds for \<^verbatim>\<open>c1\<close> from \<open>config_text\<close>.\<close>

definition stateless_info :: container_info where
  "stateless_info =
     \<lparr> container_id = ''c1'', config_image_name = None, config_labels = None,
       creation_timestamp = JNull, image_id = JString ''sha256:a'',
       mount_points = JNull, name = JString [], running = None,
       start_timestamp = None, volumes = JNull, mount_id = None \<rparr>"



section \<open>Properties\<close>

subsection \<open>Auxiliary facts\<close>

lemma Storage_init_examples:
  "Storage_init ''/'' ''aufs'' ''/var/lib/docker'' 1 = Inr storage_v1"
  "Storage_init ''/'' ''aufs'' ''/var/lib/docker'' 2 = Inr storage_v2"
  by code_simp+

lemma json_load_isfile: "json_load h p = Inr j \<Longrightarrow> isfile h p"
  by (auto simp: json_load_def open_read_def isfile_def
           split: option.splits fnode.splits sum.splits)

lemma split_on_not_Nil: "split_on c s \<noteq> []"
  by (induction s) (auto split: list.splits)

lemma length_split_on: "length (split_on c s) = Suc (count_list s c)"
  by (induction s) (auto split: list.splits simp: split_on_not_Nil)

lemma split_on_two: "count_list s c \<noteq> 1 \<Longrightarrow> split_on c s \<noteq> [a, b]"
  using length_split_on [of c s] by auto

lemma loop_malformed:
  assumes "docker_version st = 2" and "count_list cur CHR '':'' \<noteq> 1"
  shows "layers_loop h st (JString cur) acc = Some (Inl ValueError)"
  using assms split_on_two [of cur "CHR '':''"]
  by (subst layers_loop.simps) (auto split: list.splits)

lemma info_malformed:
  assumes "docker_version st = 2" and "count_list cur CHR '':'' \<noteq> 1"
  shows "GetLayerInfo h st cur = Inl ValueError"
  using assms split_on_two [of cur "CHR '':''"]
  by (auto simp: GetLayerInfo_def split: list.splits)






lemma ContainerInfo_init_isfile: "ContainerInfo_init h cid p = Inr ci \<Longrightarrow> isfile h p"
  by (auto simp: ContainerInfo_init_def dest: json_load_isfile split: sum.splits)









text \<open>Without the config file the local variable of \<^verbatim>\<open>GetContainerInfo\<close> stays
  unbound, whatever the host.\<close>

lemma missing_config_unbound:
  assumes "\<not> isfile h (container_config_path st cid)" and "docker_version st \<noteq> 2"
  shows "GetContainerInfo h st cid = Inl UnboundLocalError"
  using assms by (simp add: GetContainerInfo_def)

text \<open>A config object without a \<^verbatim>\<open>State\<close> block gives an object without
  \<open>running\<close> and \<open>start_timestamp\<close>.\<close>

lemma state_absent_unset:
  assumes "ContainerInfo_init h cid p = Inr ci"
    and "json_load h p = Inr (JObject d)" and "map_of d ''State'' = None"
  shows "running ci = None \<and> start_timestamp ci = None"
  using assms
  by (auto simp: ContainerInfo_init_def dict_get_def Let_def
           split: if_splits json.splits sum.splits prod.splits)

text \<open>Where every record has its \<^verbatim>\<open>State\<close> attributes, the listing of the running
  containers is the filtered listing, stably sorted by start timestamp.\<close>

lemma GetContainersList_running:
  assumes "GetAllContainersInfo h st = Inr infos"
    and "\<forall>x\<in>set infos. start_timestamp x \<noteq> None \<and> running x \<noteq> None"
  shows "GetContainersList rank h st True =
           Inr (sort_key (\<lambda>x. rank (attr_value (start_timestamp x)))
                  (filter (\<lambda>x. truthy (attr_value (running x))) infos))"
  using assms by (simp add: GetContainersList_def list_all_iff filter_sort)

subsection \<open>C1: the layer walk and its termination\<close>




subsection \<open>C2: lookup of a container that is not there\<close>

text \<open>C2: a container id without its \<^verbatim>\<open>containers/<id>\<close> directory is to make the
  lookup fail with an error that names the config path that was expected. On
  \<open>legacy_host\<close> there is no container \<^verbatim>\<open>c2\<close>. \<^verbatim>\<open>GetContainerInfo\<close> tests
  \<^verbatim>\<open>os.path.isfile\<close>, has no \<^verbatim>\<open>else\<close>, and fails at its \<^verbatim>\<open>return\<close> on the local
  variable that was never bound: the error is \<^verbatim>\<open>UnboundLocalError\<close> and names no
  path.\<close>

theorem missing_container_unbound_local:
  "\<not> isfile legacy_host (container_config_path storage_v1 ''c2'')
   \<and> GetContainerInfo legacy_host storage_v1 ''c2'' = Inl UnboundLocalError"
  by code_simp

subsection \<open>C3: generation-2 layer identifiers\<close>

text \<open>C3 as it stands fails on an identifier with an empty component. On
  \<open>nodigest_host\<close> the image of the container is \<^verbatim>\<open>sha256:\<close>: the walk accepts it and
  returns the one-layer chain, and the layer lookup returns \<^verbatim>\<open>None\<close>; neither
  fails.\<close>

theorem empty_digest_accepted:
  "GetOrderedLayers nodigest_host storage_v2 ''c1'' = Some (Inr [''sha256:''])
   \<and> GetLayerInfo nodigest_host storage_v2 ''sha256:'' = Inr None"
  by code_simp

text \<open>C3, amended: a generation-2 layer identifier met by the walk or by the layer lookup
  must hold exactly one colon (\<^verbatim>\<open>split(':')\<close> splits at every colon and must give two
  parts, which may be empty); an identifier with no colon or with more than one makes the
  operation fail with \<^verbatim>\<open>ValueError\<close>, whatever layers the walk has collected.\<close>

theorem malformed_layer_id_fails:
  assumes "docker_version st = 2" and "count_list cur CHR '':'' \<noteq> 1"
  shows "layers_loop h st (JString cur) acc = Some (Inl ValueError)
         \<and> GetLayerInfo h st cur = Inl ValueError"
  using loop_malformed [OF assms] info_malformed [OF assms] by simp

theorem malformed_layer_id_fails_witness:
  "docker_version storage_v2 = 2
   \<and> count_list ''sha256:a:b'' CHR '':'' \<noteq> 1
   \<and> layers_loop chain_host storage_v2 (JString ''sha256:a:b'') [''sha256:a'']
       = Some (Inl ValueError)
   \<and> GetLayerInfo chain_host storage_v2 ''sha256:a:b'' = Inl ValueError"
proof -
  have h1: "docker_version storage_v2 = 2" by code_simp
  have h2: "count_list ''sha256:a:b'' CHR '':'' \<noteq> 1" by code_simp
  from h1 h2 malformed_layer_id_fails [OF h1 h2, of chain_host "[''sha256:a'']"]
  show ?thesis by blast
qed

subsection \<open>C4: the mount-id file of a generation-2 container\<close>

text \<open>C4 as it stands fails: \<^verbatim>\<open>GetContainerInfo\<close> opens the mount-id file without
  testing for it. On \<open>no_mount_id_host\<close> the config of \<^verbatim>\<open>c1\<close> loads and the mount-id
  file is absent; the lookup raises \<^verbatim>\<open>IOError\<close>.\<close>

theorem absent_mount_id_fails:
  "GetContainerInfo no_mount_id_host storage_v2 ''c1'' = Inl IOError"
  by code_simp

text \<open>C4, amended: for every generation-2 container whose config file loads, when the
  mount-id file of the container is absent, loading the container fails with
  \<^verbatim>\<open>IOError\<close>: the absence is not tolerated.\<close>

theorem mount_id_file_required:
  assumes "docker_version st = 2"
    and "ContainerInfo_init h cid (container_config_path st cid) = Inr ci"
    and "\<not> isfile h (mount_id_path st cid)"
  shows "GetContainerInfo h st cid = Inl IOError"
  using assms ContainerInfo_init_isfile [OF assms(2)]
  by (auto simp: GetContainerInfo_def open_read_def isfile_def
           split: option.splits fnode.splits)

theorem mount_id_file_required_witness:
  "docker_version storage_v2 = 2
   \<and> ContainerInfo_init no_mount_id_host ''c1'' (container_config_path storage_v2 ''c1'')
       = Inr stateless_info
   \<and> \<not> isfile no_mount_id_host (mount_id_path storage_v2 ''c1'')
   \<and> GetContainerInfo no_mount_id_host storage_v2 ''c1'' = Inl IOError"
proof -
  have h1: "docker_version storage_v2 = 2" by code_simp
  have h2: "ContainerInfo_init no_mount_id_host ''c1'' (container_config_path storage_v2 ''c1'')
              = Inr stateless_info"
    by code_simp
  have h3: "\<not> isfile no_mount_id_host (mount_id_path storage_v2 ''c1'')" by code_simp
  from h1 h2 h3 mount_id_file_required [OF h1 h2 h3] show ?thesis by blast
qed

subsection \<open>C5: defaults of the optional fields\<close>

text \<open>C5: a config that parses but has no \<^verbatim>\<open>State\<close> block is to give a record with
  \<open>running\<close> false, and one without labels an empty label set. The config of
  \<open>legacy_host\<close> has neither \<^verbatim>\<open>State\<close> nor \<^verbatim>\<open>Config\<close>. The object is built, but
  \<^verbatim>\<open>__init__\<close> assigns \<open>running\<close> and \<open>start_timestamp\<close> only under
  \<^verbatim>\<open>if json_state:\<close> and the labels only under \<^verbatim>\<open>if json_config:\<close>: the object has
  no such attributes, although the class documents them and \<^verbatim>\<open>Running\<close> has the
  default \<^verbatim>\<open>False\<close> inside the block.\<close>

theorem state_block_absent_running_unset:
  "ContainerInfo_init legacy_host ''c1'' (container_config_path storage_v1 ''c1'')
     = Inr stateless_info
   \<and> running stateless_info = None
   \<and> start_timestamp stateless_info = None
   \<and> config_labels stateless_info = None"
  by code_simp

subsection \<open>C6: an unsupported generation\<close>

text \<open>C6: constructing the storage object with a generation other than 1 and 2 fails, for
  every working directory, driver and data directory: the constructor prints its message
  and calls \<^verbatim>\<open>sys.exit(1)\<close>. It does so before anything else: the constructor has no
  access to the files of the host, and the failure depends neither on the working directory
  nor on the data directory.\<close>

theorem Storage_init_unsupported:
  "version \<notin> {1, 2} \<Longrightarrow>
     Storage_init cwd storage_method docker_dir version = Inl (SystemExit 1)"
  by (simp add: Storage_init_def)

theorem Storage_init_unsupported_witness:
  "(3::int) \<notin> {1, 2} \<and> Storage_init ''/'' ''aufs'' ''/var/lib/docker'' 3 = Inl (SystemExit 1)"
proof -
  have h: "(3::int) \<notin> {1, 2}" by simp
  from h Storage_init_unsupported [OF h] show ?thesis by blast
qed

subsection \<open>C7: the list of running containers\<close>

text \<open>C7: for every on-disk state the list of running containers is to be the running
  records of the full listing, sorted by start timestamp. On \<open>legacy_host\<close> the full
  listing returns the one record, which has no \<^verbatim>\<open>State\<close> attributes (the defect of
  C5), and \<^verbatim>\<open>GetContainersList\<close> raises \<^verbatim>\<open>AttributeError\<close> when the sort reads the
  key \<^verbatim>\<open>x.start_timestamp\<close>.\<close>

theorem running_list_raises_without_state:
  "GetAllContainersInfo legacy_host storage_v1 = Inr [stateless_info]
   \<and> GetContainersList string_rank legacy_host storage_v1 True = Inl AttributeError"
  by code_simp

subsection \<open>C8: one read-only bind mount for each declared mount point\<close>




subsection \<open>C9: the source of a named volume\<close>



subsection \<open>C10: an empty containers directory\<close>

text \<open>C10: when the containers directory exists and has no entry,
  \<^verbatim>\<open>GetAllContainersInfo\<close> does not return the empty list: the branch of the empty
  listing calls \<^verbatim>\<open>.format\<close> on the result of \<^verbatim>\<open>print\<close>, which is \<^verbatim>\<open>None\<close>, and
  the call raises \<^verbatim>\<open>AttributeError\<close>.\<close>

theorem empty_catalog_raises:
  "files h (containers_directory st) = Some (Dir []) \<Longrightarrow>
     GetAllContainersInfo h st = Inl AttributeError"
  by (simp add: GetAllContainersInfo_def listdir_def)

theorem empty_catalog_raises_witness:
  "files empty_catalog_host (containers_directory storage_v1) = Some (Dir [])
   \<and> GetAllContainersInfo empty_catalog_host storage_v1 = Inl AttributeError"
proof -
  have h: "files empty_catalog_host (containers_directory storage_v1) = Some (Dir [])"
    by code_simp
  from h empty_catalog_raises [OF h] show ?thesis by blast
qed

end
